theory Spec2Isabelle
  imports Main
begin

section \<open>The Wave Rover tool server (src/index.ts)\<close>

text \<open>
  The server keeps one module-level table, \<open>roverConnections\<close>, and registers six tools.
  \<open>Connect\<close> adds a row to the table; the five other tools look a row up, build a JSON
  command, splice it into a URL and hand the URL to \<open>axios.get\<close>. Two Express routes,
  \<open>GET /sse\<close> and \<open>POST /messages\<close>, pick a client identifier from the request.

  Every handler runs its synchronous part (table lookup, command and URL construction)
  before its only \<open>await\<close>, and touches no shared state after it, so one invocation is
  modelled as a function from the table and the network's answer to an outcome.
\<close>

subsection \<open>Strings and numbers as JavaScript prints them\<close>

text \<open>
  A JavaScript string is modelled as a \<open>string\<close> whose characters are the code units
  0 to 255. A decimal digit and the decimal numeral of a natural number:
\<close>

definition digit :: "nat \<Rightarrow> char" where
  "digit d = char_of (48 + d)"

fun decimal :: "nat \<Rightarrow> string" where
  "decimal n = (if n < 10 then [digit n] else decimal (n div 10) @ [digit (n mod 10)])"

declare decimal.simps [simp del]

text \<open>
  The arguments that \<open>z.number()\<close> admits are modelled as finite decimal numbers:
  \<open>Number neg s e\<close> stands for \<open>(-1)^neg * s * 10^e\<close>. Every finite double has such a
  form (the one with the fewest digits is the one JavaScript prints). The values
  \<open>Infinity\<close>, \<open>-Infinity\<close> and \<open>NaN\<close> are outside this model.
\<close>

datatype number = Number bool nat int

text \<open>
  \<open>strip10\<close> finds the shortest digit string: it moves trailing zeros of \<open>s\<close> into the
  exponent.
\<close>

function strip10 :: "nat \<Rightarrow> int \<Rightarrow> nat \<times> int" where
  "strip10 s e = (if s \<noteq> 0 \<and> s mod 10 = 0 then strip10 (s div 10) (e + 1) else (s, e))"
  by pat_completeness auto
termination
  by (relation "measure (\<lambda>(s, e). s)") auto

declare strip10.simps [simp del]

text \<open>
  \<open>Number_toString\<close> is ECMAScript's \<open>Number::toString\<close> in radix 10, which a template
  literal \<open>${x}\<close> applies to a number: with \<open>k\<close> digits and the decimal point after the
  \<open>n\<close>-th digit, the number is printed as an integer, as a fraction, as \<open>0.00ddd\<close> or in
  exponent notation.
\<close>

definition Number_toString :: "number \<Rightarrow> string" where
  "Number_toString x =
     (case x of Number neg s0 e0 \<Rightarrow>
        if s0 = 0 then ''0''
        else
          (let (s, e) = strip10 s0 e0;
               ds = decimal s;
               k = int (length ds);
               n = e + k;
               body =
                 (if k \<le> n \<and> n \<le> 21 then ds @ replicate (nat (n - k)) (CHR ''0'')
                  else if 0 < n \<and> n \<le> 21 then take (nat n) ds @ ''.'' @ drop (nat n) ds
                  else if -6 < n \<and> n \<le> 0 then ''0.'' @ replicate (nat (- n)) (CHR ''0'') @ ds
                  else
                    (let ex = (if n - 1 < 0 then ''-'' else ''+'') @ decimal (nat \<bar>n - 1\<bar>)
                     in if k = 1 then ds @ ''e'' @ ex
                        else take 1 ds @ ''.'' @ drop 1 ds @ ''e'' @ ex))
           in (if neg then ''-'' else '''') @ body))"

text \<open>Whole numbers, as they appear in the command objects' \<open>T\<close> fields.\<close>

definition whole :: "nat \<Rightarrow> number" where
  "whole n = Number False n 0"

subsection \<open>\<open>JSON.stringify\<close>\<close>

text \<open>
  The object literals passed to \<open>JSON.stringify\<close> hold numbers and strings. An object is
  the list of its properties in the order of the literal.
\<close>

datatype json = JNumber number | JString string | JObject "(string \<times> json) list"

definition hex_digit :: "nat \<Rightarrow> char" where
  "hex_digit d = (if d < 10 then char_of (48 + d) else char_of (87 + d))"

text \<open>
  \<open>QuoteJSONString\<close>: the two-character escapes, \<open>\u00xx\<close> for the other control
  characters, every other character as it is.
\<close>

definition quote_char :: "char \<Rightarrow> string" where
  "quote_char c =
     (if c = CHR 0x08 then [CHR 0x5C, CHR ''b'']
      else if c = CHR 0x09 then [CHR 0x5C, CHR ''t'']
      else if c = CHR 0x0A then [CHR 0x5C, CHR ''n'']
      else if c = CHR 0x0C then [CHR 0x5C, CHR ''f'']
      else if c = CHR 0x0D then [CHR 0x5C, CHR ''r'']
      else if c = CHR 0x22 then [CHR 0x5C, CHR 0x22]
      else if c = CHR 0x5C then [CHR 0x5C, CHR 0x5C]
      else if (of_char c :: nat) < 32
        then [CHR 0x5C, CHR ''u'', CHR ''0'', CHR ''0'',
              hex_digit (of_char c div 16), hex_digit (of_char c mod 16)]
      else [c])"

definition QuoteJSONString :: "string \<Rightarrow> string" where
  "QuoteJSONString s = [CHR 0x22] @ concat (map quote_char s) @ [CHR 0x22]"

fun join :: "string \<Rightarrow> string list \<Rightarrow> string" where
  "join sep [] = []"
| "join sep [x] = x"
| "join sep (x # y # ys) = x @ sep @ join sep (y # ys)"

fun JSON_stringify :: "json \<Rightarrow> string" where
  "JSON_stringify (JNumber x) = Number_toString x"
| "JSON_stringify (JString s) = QuoteJSONString s"
| "JSON_stringify (JObject ps) =
     ''{'' @ join '','' (map (\<lambda>p. QuoteJSONString (fst p) @ '':'' @ JSON_stringify (snd p)) ps) @ ''}''"

subsection \<open>The table of rovers\<close>

text \<open>
  \<open>class Rover\<close> and \<open>const roverConnections = new Map<string, Rover>()\<close>. A JavaScript
  \<open>Map\<close> keeps its entries in insertion order; \<open>set\<close> on a key that is present replaces
  the value where it stands, \<open>set\<close> on a new key appends, \<open>size\<close> counts the entries
  (exact for every size a \<open>Map\<close> can have).
\<close>

record Rover =
  rover_id :: string
  rover_ip :: string

type_synonym connections = "(string \<times> Rover) list"

fun Map_get :: "('k \<times> 'v) list \<Rightarrow> 'k \<Rightarrow> 'v option" where
  "Map_get [] k = None"
| "Map_get ((k', v) # m) k = (if k' = k then Some v else Map_get m k)"

fun Map_set :: "('k \<times> 'v) list \<Rightarrow> 'k \<Rightarrow> 'v \<Rightarrow> ('k \<times> 'v) list" where
  "Map_set [] k v = [(k, v)]"
| "Map_set ((k', v') # m) k v = (if k' = k then (k, v) # m else (k', v') # Map_set m k v)"

definition Map_size :: "('k \<times> 'v) list \<Rightarrow> nat" where
  "Map_size m = length m"

definition Map_keys :: "('k \<times> 'v) list \<Rightarrow> 'k list" where
  "Map_keys m = map fst m"

subsection \<open>The outbound request\<close>

text \<open>
  What the network does with one GET: no answer at all (connection refused, timeout, DNS
  failure), or a final HTTP response. \<open>Http_response st d\<close> is a response with status
  \<open>st\<close> whose data, \<open>result.data\<close>, reads \<open>d\<close> when a template literal prints it (for
  a body that is not JSON, the body itself).

  \<open>axios\<close> is required on line 6 and used through \<open>axios.get(url)\<close> with no configuration,
  so its defaults apply: the promise is fulfilled with the response when
  \<open>validateStatus(status)\<close> holds, by default for 200 to 299, and rejected otherwise, as
  it is when there is no response.
\<close>

datatype reply = No_response string | Http_response nat string

datatype error = Error string | AxiosError string

record response =
  status :: nat
  data :: string

definition validateStatus :: "nat \<Rightarrow> bool" where
  "validateStatus st = (200 \<le> st \<and> st < 300)"

definition axios_get :: "(string \<Rightarrow> reply) \<Rightarrow> string \<Rightarrow> error + response" where
  "axios_get net url =
     (case net url of
        No_response msg \<Rightarrow> Inl (AxiosError msg)
      | Http_response st body \<Rightarrow>
          if validateStatus st then Inr \<lparr>status = st, data = body\<rparr>
          else Inl (AxiosError (''Request failed with status code '' @ decimal st)))"

subsection \<open>The tool handlers\<close>

text \<open>
  One invocation yields: what the handler's promise settles to (the text of its single
  content item, or the error thrown), the table afterwards, and the URLs handed to
  \<open>axios.get\<close>, in order.
\<close>

record invocation =
  outcome :: "error + string"
  connections_after :: connections
  outbound :: "string list"

definition Connect_handler :: "connections \<Rightarrow> string \<Rightarrow> invocation" where
  "Connect_handler roverConnections ip =
     (let roverId = ''rover'' @ decimal (Map_size roverConnections + 1);
          rover = \<lparr>rover_id = roverId, rover_ip = ip\<rparr>
      in \<lparr>outcome = Inr (''Connected to: '' @ ip @ '' with ID: '' @ roverId),
          connections_after = Map_set roverConnections roverId rover,
          outbound = []\<rparr>)"

text \<open>
  The five other handlers share their shape: look up, throw if absent, stringify, build
  the URL, await the GET, build the text. \<open>send_command\<close> is that shape; the text is
  computed from the response because the IMU handler reads \<open>result.data\<close>.
\<close>

definition not_found :: "string \<Rightarrow> error" where
  "not_found ident = Error (''Rover with ID '' @ ident @ '' not found'')"

definition command_url :: "Rover \<Rightarrow> string \<Rightarrow> string" where
  "command_url rover command = ''http://'' @ rover_ip rover @ ''/js?json='' @ command"

definition send_command ::
  "connections \<Rightarrow> (string \<Rightarrow> reply) \<Rightarrow> string \<Rightarrow> json \<Rightarrow> (response \<Rightarrow> string) \<Rightarrow> invocation" where
  "send_command roverConnections net ident obj text_of =
     (case Map_get roverConnections ident of
        None \<Rightarrow> \<lparr>outcome = Inl (not_found ident),
                 connections_after = roverConnections, outbound = []\<rparr>
      | Some rover \<Rightarrow>
          (let command = JSON_stringify obj;
               url = command_url rover command
           in case axios_get net url of
                Inl err \<Rightarrow> \<lparr>outcome = Inl err,
                            connections_after = roverConnections, outbound = [url]\<rparr>
              | Inr result \<Rightarrow> \<lparr>outcome = Inr (text_of result),
                               connections_after = roverConnections, outbound = [url]\<rparr>))"

definition Speed_command :: "number \<Rightarrow> number \<Rightarrow> json" where
  "Speed_command leftWheelSpeed rightWheelSpeed =
     JObject [(''T'', JNumber (whole 1)), (''L'', JNumber leftWheelSpeed),
              (''R'', JNumber rightWheelSpeed)]"

definition PWM_command :: "number \<Rightarrow> number \<Rightarrow> json" where
  "PWM_command L R = JObject [(''T'', JNumber (whole 11)), (''L'', JNumber L), (''R'', JNumber R)]"

definition cmd_vel_command :: "number \<Rightarrow> number \<Rightarrow> json" where
  "cmd_vel_command L R =
     JObject [(''T'', JNumber (whole 13)), (''X'', JNumber L), (''Z'', JNumber R)]"

definition Screen_command :: "number \<Rightarrow> string \<Rightarrow> json" where
  "Screen_command lineNum Text =
     JObject [(''T'', JNumber (whole 3)), (''lineNum'', JNumber lineNum), (''Text'', JString Text)]"

definition IMU_command :: json where
  "IMU_command = JObject [(''T'', JNumber (whole 126))]"

definition Speed_handler ::
  "connections \<Rightarrow> (string \<Rightarrow> reply) \<Rightarrow> string \<Rightarrow> number \<Rightarrow> number \<Rightarrow> invocation" where
  "Speed_handler roverConnections net ident leftWheelSpeed rightWheelSpeed =
     send_command roverConnections net ident (Speed_command leftWheelSpeed rightWheelSpeed)
       (\<lambda>_. ''Left wheel speed: '' @ Number_toString leftWheelSpeed
             @ '', Right wheel speed: '' @ Number_toString rightWheelSpeed)"

definition PWM_handler ::
  "connections \<Rightarrow> (string \<Rightarrow> reply) \<Rightarrow> string \<Rightarrow> number \<Rightarrow> number \<Rightarrow> invocation" where
  "PWM_handler roverConnections net ident L R =
     send_command roverConnections net ident (PWM_command L R)
       (\<lambda>_. ''Left wheel speed: '' @ Number_toString L
             @ '', Right wheel speed: '' @ Number_toString R)"

definition cmd_vel_handler ::
  "connections \<Rightarrow> (string \<Rightarrow> reply) \<Rightarrow> string \<Rightarrow> number \<Rightarrow> number \<Rightarrow> invocation" where
  "cmd_vel_handler roverConnections net ident L R =
     send_command roverConnections net ident (cmd_vel_command L R)
       (\<lambda>_. ''Velocity: '' @ Number_toString L @ '', Rotation: '' @ Number_toString R)"

definition Screen_handler ::
  "connections \<Rightarrow> (string \<Rightarrow> reply) \<Rightarrow> string \<Rightarrow> number \<Rightarrow> string \<Rightarrow> invocation" where
  "Screen_handler roverConnections net ident lineNum Text =
     send_command roverConnections net ident (Screen_command lineNum Text)
       (\<lambda>_. ''Line Number: '' @ Number_toString lineNum @ '', Text: '' @ Text)"

definition IMU_handler :: "connections \<Rightarrow> (string \<Rightarrow> reply) \<Rightarrow> string \<Rightarrow> invocation" where
  "IMU_handler roverConnections net ident =
     send_command roverConnections net ident IMU_command (\<lambda>result. ''result'' @ data result)"

text \<open>
  The tools by name. \<open>Connect\<close> takes an address; each of the five others takes the
  identifier of a rover and its own arguments. A session is a list of calls, each with
  the network it meets.
\<close>

datatype device_op =
    Speed number number
  | PWM number number
  | Cmd_vel number number
  | Screen number string
  | IMU

datatype tool_call = Connect string | Command string device_op

fun device_handler ::
  "connections \<Rightarrow> (string \<Rightarrow> reply) \<Rightarrow> string \<Rightarrow> device_op \<Rightarrow> invocation" where
  "device_handler rc net ident (Speed l r) = Speed_handler rc net ident l r"
| "device_handler rc net ident (PWM l r) = PWM_handler rc net ident l r"
| "device_handler rc net ident (Cmd_vel l r) = cmd_vel_handler rc net ident l r"
| "device_handler rc net ident (Screen n t) = Screen_handler rc net ident n t"
| "device_handler rc net ident IMU = IMU_handler rc net ident"

fun invoke :: "connections \<Rightarrow> (string \<Rightarrow> reply) \<Rightarrow> tool_call \<Rightarrow> invocation" where
  "invoke rc net (Connect ip) = Connect_handler rc ip"
| "invoke rc net (Command ident op) = device_handler rc net ident op"

fun run :: "connections \<Rightarrow> (tool_call \<times> (string \<Rightarrow> reply)) list \<Rightarrow> invocation list" where
  "run rc [] = []"
| "run rc ((c, net) # cs) = invoke rc net c # run (connections_after (invoke rc net c)) cs"

fun final_connections ::
  "connections \<Rightarrow> (tool_call \<times> (string \<Rightarrow> reply)) list \<Rightarrow> connections" where
  "final_connections rc [] = rc"
| "final_connections rc ((c, net) # cs) =
     final_connections (connections_after (invoke rc net c)) cs"

text \<open>
  The identifier a \<open>Connect\<close> call computes (its local \<open>roverId\<close>), and the identifiers
  computed by the \<open>Connect\<close> calls of a session, in call order.
\<close>

definition next_roverId :: "connections \<Rightarrow> string" where
  "next_roverId rc = ''rover'' @ decimal (Map_size rc + 1)"

fun issued :: "connections \<Rightarrow> (tool_call \<times> (string \<Rightarrow> reply)) list \<Rightarrow> string list" where
  "issued rc [] = []"
| "issued rc ((Connect ip, net) # cs) =
     next_roverId rc # issued (connections_after (invoke rc net (Connect ip))) cs"
| "issued rc ((Command ident op, net) # cs) =
     issued (connections_after (invoke rc net (Command ident op))) cs"

text \<open>A network that gives the same reply to every URL.\<close>

definition replying :: "reply \<Rightarrow> string \<Rightarrow> reply" where
  "replying r url = r"

subsection \<open>The transport routes\<close>

text \<open>
  \<open>req.query.clientId\<close> is, as Express parses a query string, absent, a string, an array
  or a nested object; \<open>req.headers["client-id"]\<close> is absent or a string. The casts
  \<open>as string\<close> do nothing at run time. \<open>a || b\<close> is \<open>a\<close> when \<open>a\<close> is truthy and \<open>b\<close>
  otherwise; the empty string and \<open>undefined\<close> are falsy, arrays and objects are truthy.
\<close>

datatype jsvalue =
    Undefined
  | Str string
  | Arr "jsvalue list"
  | Obj "(string \<times> jsvalue) list"

fun truthy :: "jsvalue \<Rightarrow> bool" where
  "truthy Undefined = False"
| "truthy (Str s) = (s \<noteq> [])"
| "truthy (Arr xs) = True"
| "truthy (Obj ps) = True"

definition or_else :: "jsvalue \<Rightarrow> jsvalue \<Rightarrow> jsvalue" where
  "or_else a b = (if truthy a then a else b)"

record request =
  query_clientId :: jsvalue
  header_client_id :: jsvalue

definition clientId_of :: "request \<Rightarrow> jsvalue" where
  "clientId_of req =
     or_else (or_else (query_clientId req) (header_client_id req)) (Str ''defaultClientId'')"

text \<open>
  What a route does with a request: send a status and a text, open the event stream and
  store its transport under the client identifier, or pass the message to the transport
  found. The table \<open>transports\<close> enters \<open>POST /messages\<close> through its \<open>get\<close>.
\<close>

datatype 't routed = Send nat string | Sse_opened jsvalue | Post_handled 't

definition sse_route :: "request \<Rightarrow> 't routed" where
  "sse_route req =
     (let clientId = clientId_of req
      in if \<not> truthy clientId then Send 400 ''clientId query parameter is required''
         else Sse_opened clientId)"

definition messages_route :: "(jsvalue \<Rightarrow> 't option) \<Rightarrow> request \<Rightarrow> 't routed" where
  "messages_route transports_get req =
     (let clientId = clientId_of req
      in if \<not> truthy clientId then Send 400 ''clientId query parameter is required''
         else case transports_get clientId of
                None \<Rightarrow> Send 404 ''Transport not found for clientId''
              | Some transport \<Rightarrow> Post_handled transport)"

subsection \<open>The words of the specification\<close>

text \<open>
  The specification's table of command objects (section 4.2), against which the handlers
  are compared.
\<close>

fun command_object :: "device_op \<Rightarrow> json" where
  "command_object (Speed leftWheelSpeed rightWheelSpeed) =
     JObject [(''T'', JNumber (whole 1)), (''L'', JNumber leftWheelSpeed),
              (''R'', JNumber rightWheelSpeed)]"
| "command_object (PWM L R) =
     JObject [(''T'', JNumber (whole 11)), (''L'', JNumber L), (''R'', JNumber R)]"
| "command_object (Cmd_vel L R) =
     JObject [(''T'', JNumber (whole 13)), (''X'', JNumber L), (''Z'', JNumber R)]"
| "command_object (Screen lineNum Text) =
     JObject [(''T'', JNumber (whole 3)), (''lineNum'', JNumber lineNum),
              (''Text'', JString Text)]"
| "command_object IMU = JObject [(''T'', JNumber (whole 126))]"

text \<open>
  The specification's \<open>urlencoded\<close>: percent-encoding as \<open>encodeURIComponent\<close> does it.
  Letters, digits and \<open>- _ . ! ~ * ' ( )\<close> stay; every other character becomes \<open>%XX\<close>
  for each byte of its UTF-8 form.
\<close>

definition uri_unreserved :: "char \<Rightarrow> bool" where
  "uri_unreserved c \<longleftrightarrow>
     c \<in> set (''ABCDEFGHIJKLMNOPQRSTUVWXYZabcdefghijklmnopqrstuvwxyz0123456789-_.!~*()''
              @ [CHR 0x27])"

definition HEX_digit :: "nat \<Rightarrow> char" where
  "HEX_digit d = (if d < 10 then char_of (48 + d) else char_of (55 + d))"

definition percent_byte :: "nat \<Rightarrow> string" where
  "percent_byte b = [CHR ''%'', HEX_digit (b div 16), HEX_digit (b mod 16)]"

definition encode_char :: "char \<Rightarrow> string" where
  "encode_char c =
     (let n = (of_char c :: nat)
      in if uri_unreserved c then [c]
         else if n < 128 then percent_byte n
         else percent_byte (192 + n div 64) @ percent_byte (128 + n mod 64))"

definition encodeURIComponent :: "string \<Rightarrow> string" where
  "encodeURIComponent s = concat (map encode_char s)"

subsection \<open>Sessions\<close>

text \<open>
  The number of \<open>Connect\<close> calls in a session, and the shape the table has after any
  session: its keys are \<open>rover1\<close>, \<open>rover2\<close>, ... in order.
\<close>

fun connects :: "(tool_call \<times> (string \<Rightarrow> reply)) list \<Rightarrow> nat" where
  "connects [] = 0"
| "connects ((Connect ip, net) # cs) = Suc (connects cs)"
| "connects ((Command ident op, net) # cs) = connects cs"

definition numbered :: "connections \<Rightarrow> bool" where
  "numbered rc \<longleftrightarrow> Map_keys rc = map (\<lambda>i. ''rover'' @ decimal i) [1..<Suc (Map_size rc)]"

section \<open>Properties\<close>

subsection \<open>Decimal numerals are injective\<close>

lemma digit_inj: "a < 10 \<Longrightarrow> b < 10 \<Longrightarrow> digit a = digit b \<Longrightarrow> a = b"
proof -
  assume a: "a < 10" and b: "b < 10" and e: "digit a = digit b"
  from e have "(of_char (char_of (48 + a)) :: nat) = of_char (char_of (48 + b))"
    by (simp add: digit_def)
  with a b show "a = b" by (simp add: of_char_of)
qed

lemma length_decimal_small: "n < 10 \<Longrightarrow> length (decimal n) = 1"
  by (simp add: decimal.simps)

lemma length_decimal_pos: "0 < length (decimal n)"
  by (subst decimal.simps) simp

lemma length_decimal_large: "\<not> n < 10 \<Longrightarrow> 1 < length (decimal n)"
  using length_decimal_pos [of "n div 10"] by (subst decimal.simps) simp

lemma decimal_inj: "decimal m = decimal n \<Longrightarrow> m = n"
proof (induction m arbitrary: n rule: decimal.induct)
  case (1 m)
  show ?case
  proof (cases "m < 10")
    case small: True
    have "n < 10"
    proof (rule ccontr)
      assume "\<not> n < 10"
      from length_decimal_large [OF this] length_decimal_small [OF small] "1.prems"
      show False by simp
    qed
    with small "1.prems" show ?thesis
      by (simp add: decimal.simps [of m] decimal.simps [of n] digit_inj)
  next
    case large: False
    have nl: "\<not> n < 10"
    proof
      assume "n < 10"
      from length_decimal_small [OF this] length_decimal_large [OF large] "1.prems"
      show False by simp
    qed
    from large nl "1.prems"
    have eq: "decimal (m div 10) @ [digit (m mod 10)] = decimal (n div 10) @ [digit (n mod 10)]"
      by (simp add: decimal.simps [of m] decimal.simps [of n])
    then have "decimal (m div 10) = decimal (n div 10)" and d: "digit (m mod 10) = digit (n mod 10)"
      by simp_all
    with "1.IH" [OF large] have q: "m div 10 = n div 10" by blast
    from d have r: "m mod 10 = n mod 10" by (intro digit_inj) simp_all
    from q r show ?thesis by (metis div_mult_mod_eq)
  qed
qed

subsection \<open>The table\<close>

lemma Map_keys_Nil: "Map_keys [] = []"
  by (simp add: Map_keys_def)

lemma Map_keys_Cons: "Map_keys (p # m) = fst p # Map_keys m"
  by (simp add: Map_keys_def)

lemma Map_set_fresh: "k \<notin> set (Map_keys m) \<Longrightarrow> Map_set m k v = m @ [(k, v)]"
proof (induction m)
  case Nil
  show ?case by simp
next
  case (Cons p m)
  then show ?case by (cases p) (auto simp: Map_keys_Cons)
qed


lemma Map_keys_set: "set (Map_keys (Map_set m k v)) = insert k (set (Map_keys m))"
proof (induction m)
  case Nil
  show ?case by (simp add: Map_keys_Nil Map_keys_Cons)
next
  case (Cons p m)
  then show ?case by (cases p) (auto simp: Map_keys_Cons)
qed


subsection \<open>\<open>Connect\<close> on a numbered table\<close>

lemma next_roverId_fresh:
  assumes "numbered rc"
  shows "next_roverId rc \<notin> set (Map_keys rc)"
proof
  assume "next_roverId rc \<in> set (Map_keys rc)"
  with assms have "next_roverId rc \<in> (\<lambda>i. ''rover'' @ decimal i) ` set [1..<Suc (Map_size rc)]"
    by (simp only: numbered_def set_map)
  then obtain i where i: "i \<in> set [1..<Suc (Map_size rc)]" and
    e: "next_roverId rc = ''rover'' @ decimal i"
    by blast
  from e have "decimal (Map_size rc + 1) = decimal i" by (simp add: next_roverId_def)
  then have "Map_size rc + 1 = i" by (rule decimal_inj)
  with i show False by simp
qed


lemma Connect_handler_after:
  "connections_after (Connect_handler rc ip) =
     Map_set rc (next_roverId rc) \<lparr>rover_id = next_roverId rc, rover_ip = ip\<rparr>"
  by (simp add: Connect_handler_def next_roverId_def Let_def)

lemma Connect_handler_appends:
  assumes "numbered rc"
  shows "connections_after (Connect_handler rc ip) =
           rc @ [(next_roverId rc, \<lparr>rover_id = next_roverId rc, rover_ip = ip\<rparr>)]"
  by (simp add: Connect_handler_after Map_set_fresh next_roverId_fresh [OF assms])

lemma numbered_Connect:
  assumes "numbered rc"
  shows "numbered (connections_after (Connect_handler rc ip))"
  using assms
  by (simp add: Connect_handler_appends [OF assms] numbered_def Map_keys_def Map_size_def
      next_roverId_def)

lemma numbered_empty: "numbered []"
  by (simp add: numbered_def Map_keys_def Map_size_def)

subsection \<open>The device handlers\<close>

lemma send_command_absent:
  "Map_get rc ident = None \<Longrightarrow>
   send_command rc net ident obj text_of =
     \<lparr>outcome = Inl (not_found ident), connections_after = rc, outbound = []\<rparr>"
  by (simp add: send_command_def)

lemma send_command_outbound:
  "Map_get rc ident = Some rover \<Longrightarrow>
   outbound (send_command rc net ident obj text_of) = [command_url rover (JSON_stringify obj)]"
  by (simp add: send_command_def Let_def split: sum.splits)

lemma send_command_frame: "connections_after (send_command rc net ident obj text_of) = rc"
  by (simp add: send_command_def Let_def split: option.splits sum.splits)


lemmas handler_defs =
  Speed_handler_def PWM_handler_def cmd_vel_handler_def Screen_handler_def IMU_handler_def

lemmas command_defs =
  Speed_command_def PWM_command_def cmd_vel_command_def Screen_command_def IMU_command_def

lemma device_handler_absent:
  "Map_get rc ident = None \<Longrightarrow>
   device_handler rc net ident op =
     \<lparr>outcome = Inl (not_found ident), connections_after = rc, outbound = []\<rparr>"
  by (cases op) (simp_all add: handler_defs send_command_absent)

lemma device_handler_outbound:
  "Map_get rc ident = Some rover \<Longrightarrow>
   outbound (device_handler rc net ident op) =
     [command_url rover (JSON_stringify (command_object op))]"
  by (cases op) (simp_all add: handler_defs command_defs send_command_outbound)

lemma device_handler_frame: "connections_after (device_handler rc net ident op) = rc"
  by (cases op) (simp_all add: handler_defs send_command_frame)



subsection \<open>Sessions from the empty table\<close>

lemma numbered_invoke: "numbered rc \<Longrightarrow> numbered (connections_after (invoke rc net c))"
  by (cases c) (simp_all add: numbered_Connect device_handler_frame)

lemma size_Connect:
  "numbered rc \<Longrightarrow> Map_size (connections_after (Connect_handler rc ip)) = Suc (Map_size rc)"
  by (simp add: Connect_handler_appends Map_size_def)

lemma numbered_final: "numbered rc \<Longrightarrow> numbered (final_connections rc cs)"
proof (induction cs arbitrary: rc)
  case Nil
  then show ?case by simp
next
  case (Cons a cs)
  then show ?case by (cases a) (simp add: numbered_invoke)
qed

lemma size_final:
  "numbered rc \<Longrightarrow> Map_size (final_connections rc cs) = Map_size rc + connects cs"
proof (induction rc cs rule: issued.induct)
  case (1 rc)
  show ?case by simp
next
  case (2 rc ip net cs)
  then show ?case by (simp add: numbered_Connect size_Connect)
next
  case (3 rc ident op net cs)
  then show ?case by (simp add: device_handler_frame)
qed

lemma issued_numbered:
  "numbered rc \<Longrightarrow>
   issued rc cs =
     map (\<lambda>i. ''rover'' @ decimal i) [Suc (Map_size rc)..<Suc (Map_size rc + connects cs)]"
proof (induction rc cs rule: issued.induct)
  case (1 rc)
  show ?case by simp
next
  case (2 rc ip net cs)
  then show ?case
    by (simp add: numbered_Connect size_Connect next_roverId_def upt_conv_Cons del: upt_Suc)
next
  case (3 rc ident op net cs)
  then show ?case by (simp add: device_handler_frame)
qed

lemma keys_final:
  "numbered rc \<Longrightarrow> Map_keys (final_connections rc cs) = Map_keys rc @ issued rc cs"
proof (induction rc cs rule: issued.induct)
  case (1 rc)
  show ?case by simp
next
  case (2 rc ip net cs)
  have "numbered (connections_after (invoke rc net (Connect ip)))"
    using "2.prems" by (simp add: numbered_Connect)
  from "2.IH" [OF this] show ?case
    by (simp add: Connect_handler_appends [OF "2.prems"] Map_keys_def)
next
  case (3 rc ident op net cs)
  then show ?case by (simp add: device_handler_frame)
qed

lemma distinct_names: "distinct (map (\<lambda>i. ''rover'' @ decimal i) [a..<b])"
  by (auto simp: distinct_map intro!: inj_onI dest: decimal_inj)

section \<open>The claims\<close>

subsection \<open>C1: the URL of the outbound request\<close>

text \<open>
  C1 says that the query value of the one outbound GET is the percent-encoding of the
  command's JSON text. No handler encodes: each splices the text that \<open>JSON.stringify\<close>
  returns into the template \<open>http://${rover.ip}/js?json=${command}\<close>. After
  \<open>Connect\<close> of \<open>10.0.0.5\<close>, the IMU tool asks for
  \<open>http://10.0.0.5/js?json={"T":126}\<close> and not for the encoded
  \<open>http://10.0.0.5/js?json=%7B%22T%22%3A126%7D\<close>.
\<close>

theorem url_not_percent_encoded:
  "outbound (invoke (connections_after (invoke [] (replying (No_response [])) (Connect ''10.0.0.5'')))
              (replying (Http_response 200 ''ok'')) (Command ''rover1'' IMU))
   \<noteq> [''http://10.0.0.5/js?json='' @ encodeURIComponent (JSON_stringify (command_object IMU))]"
  by code_simp

text \<open>
  C1, amended: for every device-addressing tool and every registered identifier, exactly
  one URL is handed to \<open>axios.get\<close>, and it is \<open>http://\<close>, the registered address,
  \<open>/js?json=\<close> and the JSON text of the tool's command object as \<open>JSON.stringify\<close>
  returns it, with no encoding applied.
\<close>

theorem url_carries_json_text:
  assumes "Map_get rc ident = Some rover"
  shows "outbound (invoke rc net (Command ident op)) =
           [''http://'' @ rover_ip rover @ ''/js?json='' @ JSON_stringify (command_object op)]"
  using device_handler_outbound [OF assms, of net op] by (simp add: command_url_def)

theorem url_carries_json_text_witness:
  \<open>Map_get [(''rover1'', \<lparr>rover_id = ''rover1'', rover_ip = ''10.0.0.5''\<rparr>)] ''rover1''
     = Some \<lparr>rover_id = ''rover1'', rover_ip = ''10.0.0.5''\<rparr>
   \<and> outbound (invoke [(''rover1'', \<lparr>rover_id = ''rover1'', rover_ip = ''10.0.0.5''\<rparr>)]
                (replying (Http_response 200 ''ok'')) (Command ''rover1'' (Screen (whole 2) ''a b&c'')))
     = [''http://10.0.0.5/js?json={"T":3,"lineNum":2,"Text":"a b&c"}'']\<close>
proof -
  have h: "Map_get [(''rover1'', \<lparr>rover_id = ''rover1'', rover_ip = ''10.0.0.5''\<rparr>)] ''rover1''
     = Some \<lparr>rover_id = ''rover1'', rover_ip = ''10.0.0.5''\<rparr>"
    by simp
  have j: \<open>JSON_stringify (command_object (Screen (whole 2) ''a b&c''))
             = ''{"T":3,"lineNum":2,"Text":"a b&c"}''\<close>
    by code_simp
  from url_carries_json_text [OF h, of "replying (Http_response 200 ''ok'')" "Screen (whole 2) ''a b&c''"]
  show ?thesis unfolding j by simp
qed

subsection \<open>C2: the text the IMU tool returns\<close>




subsection \<open>C3: the identifiers \<open>Connect\<close> hands out\<close>

text \<open>
  C3: in every session that starts from the empty table, with its \<open>Connect\<close> calls
  interleaved with any device commands, the identifiers computed by the \<open>Connect\<close> calls
  are \<open>rover1\<close>, \<open>rover2\<close>, ..., \<open>roverN\<close> in call order, where \<open>N\<close> is the number of
  \<open>Connect\<close> calls; they are pairwise distinct; they are the keys of the table, which
  has \<open>N\<close> entries; and one more \<open>Connect\<close> answers with the identifier numbered
  \<open>N + 1\<close> and makes the table one entry longer.
\<close>

theorem connect_identifiers_sequential:
  "issued [] cs = map (\<lambda>i. ''rover'' @ decimal i) [1..<Suc (connects cs)]
   \<and> distinct (issued [] cs)
   \<and> Map_keys (final_connections [] cs) = issued [] cs
   \<and> Map_size (final_connections [] cs) = connects cs
   \<and> outcome (invoke (final_connections [] cs) net (Connect ip)) =
       Inr (''Connected to: '' @ ip @ '' with ID: rover'' @ decimal (Suc (connects cs)))
   \<and> Map_size (connections_after (invoke (final_connections [] cs) net (Connect ip))) =
       Suc (Map_size (final_connections [] cs))"
proof -
  have i: "issued [] cs = map (\<lambda>i. ''rover'' @ decimal i) [1..<Suc (connects cs)]"
    using issued_numbered [OF numbered_empty, of cs] by (simp add: Map_size_def)
  have d: "distinct (issued [] cs)"
    unfolding i by (rule distinct_names)
  have k: "Map_keys (final_connections [] cs) = issued [] cs"
    using keys_final [OF numbered_empty, of cs] by (simp add: Map_keys_def)
  have s: "Map_size (final_connections [] cs) = connects cs"
    using size_final [OF numbered_empty, of cs] by (simp add: Map_size_def)
  have t: "outcome (invoke (final_connections [] cs) net (Connect ip)) =
       Inr (''Connected to: '' @ ip @ '' with ID: rover'' @ decimal (Suc (connects cs)))"
    by (simp add: Connect_handler_def Let_def s)
  have g: "Map_size (connections_after (invoke (final_connections [] cs) net (Connect ip))) =
       Suc (Map_size (final_connections [] cs))"
    by (simp add: size_Connect numbered_final [OF numbered_empty])
  from i d k s t g show ?thesis by blast
qed

theorem connect_identifiers_sequential_witness:
  "issued [] [(Connect ''10.0.0.5'', replying (No_response [])),
              (Command ''rover1'' IMU, replying (Http_response 200 ''ok'')),
              (Connect ''10.0.0.6'', replying (No_response []))]
     = [''rover1'', ''rover2'']
   \<and> outcome (invoke (final_connections []
          [(Connect ''10.0.0.5'', replying (No_response [])),
           (Command ''rover1'' IMU, replying (Http_response 200 ''ok'')),
           (Connect ''10.0.0.6'', replying (No_response []))])
        (replying (No_response [])) (Connect ''10.0.0.7''))
     = Inr ''Connected to: 10.0.0.7 with ID: rover3''"
proof -
  have c: "connects [(Connect ''10.0.0.5'', replying (No_response [])),
              (Command ''rover1'' IMU, replying (Http_response 200 ''ok'')),
              (Connect ''10.0.0.6'', replying (No_response []))] = 2"
    by simp
  have n: "map (\<lambda>i. ''rover'' @ decimal i) [1..<Suc 2] = [''rover1'', ''rover2'']"
    by code_simp
  have m: "decimal (Suc 2) = ''3''"
    by code_simp
  from connect_identifiers_sequential
    [of "[(Connect ''10.0.0.5'', replying (No_response [])),
          (Command ''rover1'' IMU, replying (Http_response 200 ''ok'')),
          (Connect ''10.0.0.6'', replying (No_response []))]"
        "replying (No_response [])" "''10.0.0.7''"]
  show ?thesis unfolding c n m by simp
qed

subsection \<open>C4: an identifier that is not registered\<close>

text \<open>
  C4: for each of the five device-addressing tools, when the identifier has no entry in
  the table the handler throws \<open>Error\<close> with the message
  \<open>Rover with ID <identifier> not found\<close>, hands no URL to \<open>axios.get\<close>, and leaves the
  table as it is.
\<close>

theorem unknown_identifier_fails_without_request:
  assumes "Map_get rc ident = None"
  shows "invoke rc net (Command ident op) =
           \<lparr>outcome = Inl (Error (''Rover with ID '' @ ident @ '' not found'')),
            connections_after = rc, outbound = []\<rparr>"
  using device_handler_absent [OF assms, of net op] by (simp add: not_found_def)

theorem unknown_identifier_fails_without_request_witness:
  "Map_get (connections_after (invoke [] (replying (No_response [])) (Connect ''10.0.0.5'')))
     ''rover2'' = None
   \<and> outcome (invoke (connections_after (invoke [] (replying (No_response [])) (Connect ''10.0.0.5'')))
              (replying (Http_response 200 ''ok''))
              (Command ''rover2'' (Speed (whole 50) (Number True 50 0))))
     = Inl (Error ''Rover with ID rover2 not found'')
   \<and> outbound (invoke (connections_after (invoke [] (replying (No_response [])) (Connect ''10.0.0.5'')))
              (replying (Http_response 200 ''ok''))
              (Command ''rover2'' (Speed (whole 50) (Number True 50 0))))
     = []"
proof -
  have h: "Map_get (connections_after (invoke [] (replying (No_response [])) (Connect ''10.0.0.5'')))
     ''rover2'' = None"
    by code_simp
  from h unknown_identifier_fails_without_request
    [OF h, of "replying (Http_response 200 ''ok'')" "Speed (whole 50) (Number True 50 0)"]
  show ?thesis by simp
qed

subsection \<open>C5: looking an identifier up\<close>



subsection \<open>C6: the command of the Speed tool\<close>



subsection \<open>C7: the command of the cmd_vel tool\<close>



subsection \<open>C8: who writes the table\<close>

text \<open>
  C8: a call of Speed, PWM, cmd_vel, Screen or IMU leaves the table exactly as it was,
  whatever the identifier and whatever the network does (not-found error, rejected GET
  or success). Hence a call that changes the table is a \<open>Connect\<close>, and in a session a
  device command changes neither the table at the end nor what any later call does.
\<close>

theorem only_Connect_writes_the_table:
  "connections_after (invoke rc net (Command ident op)) = rc
   \<and> (connections_after (invoke rc net c) \<noteq> rc \<longrightarrow> (\<exists>ip. c = Connect ip))
   \<and> final_connections rc ((Command ident op, net) # cs) = final_connections rc cs
   \<and> run rc ((Command ident op, net) # cs) = invoke rc net (Command ident op) # run rc cs"
proof -
  have f: "connections_after (invoke rc net (Command ident op)) = rc"
    by (simp add: device_handler_frame)
  have w: "connections_after (invoke rc net c) \<noteq> rc \<longrightarrow> (\<exists>ip. c = Connect ip)"
    by (cases c) (simp_all add: device_handler_frame)
  from f w show ?thesis by simp
qed

theorem only_Connect_writes_the_table_witness:
  "connections_after (invoke [] (replying (No_response [])) (Connect ''10.0.0.5'')) \<noteq> []
   \<and> connections_after
        (invoke [(''rover1'', \<lparr>rover_id = ''rover1'', rover_ip = ''10.0.0.5''\<rparr>)]
           (replying (No_response ''timeout'')) (Command ''rover1'' IMU))
       = [(''rover1'', \<lparr>rover_id = ''rover1'', rover_ip = ''10.0.0.5''\<rparr>)]"
proof -
  have h: "connections_after (invoke [] (replying (No_response [])) (Connect ''10.0.0.5'')) \<noteq> []"
    by code_simp
  from h only_Connect_writes_the_table
    [of "[(''rover1'', \<lparr>rover_id = ''rover1'', rover_ip = ''10.0.0.5''\<rparr>)]"
        "replying (No_response ''timeout'')" "''rover1''" IMU "Connect ''10.0.0.5''" "[]"]
  show ?thesis by simp
qed

subsection \<open>C9: a response whose status is not 2xx\<close>




subsection \<open>C10: the check for a missing client identifier\<close>

text \<open>
  C10: in both routes the client identifier is the query parameter, or else the header,
  or else the literal \<open>defaultClientId\<close>, so it is never falsy and the branch that sends
  400 with \<open>clientId query parameter is required\<close> is never taken: \<open>GET /sse\<close> always
  opens the stream, and \<open>POST /messages\<close> answers 404 or passes the message on. With
  neither the parameter nor the header, the identifier is \<open>defaultClientId\<close>.
\<close>

theorem missing_clientId_branch_unreachable:
  fixes transports_get :: "jsvalue \<Rightarrow> 't option"
  shows "truthy (clientId_of req)
   \<and> sse_route req = (Sse_opened (clientId_of req) :: 't routed)
   \<and> sse_route req \<noteq> (Send 400 ''clientId query parameter is required'' :: 't routed)
   \<and> messages_route transports_get req =
       (case transports_get (clientId_of req) of
          None \<Rightarrow> Send 404 ''Transport not found for clientId''
        | Some transport \<Rightarrow> Post_handled transport)
   \<and> messages_route transports_get req \<noteq> Send 400 ''clientId query parameter is required''
   \<and> clientId_of \<lparr>query_clientId = Undefined, header_client_id = Undefined\<rparr> =
       Str ''defaultClientId''"
proof -
  have t: "truthy (clientId_of req)"
    by (simp add: clientId_of_def or_else_def)
  have s: "sse_route req = (Sse_opened (clientId_of req) :: 't routed)"
    using t by (simp add: sse_route_def Let_def)
  have s': "sse_route req \<noteq> (Send 400 ''clientId query parameter is required'' :: 't routed)"
    unfolding s by simp
  have m: "messages_route transports_get req =
       (case transports_get (clientId_of req) of
          None \<Rightarrow> Send 404 ''Transport not found for clientId''
        | Some transport \<Rightarrow> Post_handled transport)"
    using t by (simp add: messages_route_def Let_def)
  have m': "messages_route transports_get req \<noteq> Send 400 ''clientId query parameter is required''"
    unfolding m by (simp split: option.splits)
  have d: "clientId_of \<lparr>query_clientId = Undefined, header_client_id = Undefined\<rparr> =
       Str ''defaultClientId''"
    by (simp add: clientId_of_def or_else_def)
  from t s s' m m' d show ?thesis by blast
qed

theorem missing_clientId_branch_unreachable_witness:
  "sse_route \<lparr>query_clientId = Str [], header_client_id = Undefined\<rparr> =
     (Sse_opened (Str ''defaultClientId'') :: unit routed)
   \<and> messages_route Map.empty \<lparr>query_clientId = Undefined, header_client_id = Str ''c1''\<rparr> =
     (Send 404 ''Transport not found for clientId'' :: unit routed)"
proof -
  have a: "clientId_of \<lparr>query_clientId = Str [], header_client_id = Undefined\<rparr>
             = Str ''defaultClientId''"
    by (simp add: clientId_of_def or_else_def)
  from missing_clientId_branch_unreachable
         [where ?'t = unit
            and req = "\<lparr>query_clientId = Str [], header_client_id = Undefined\<rparr>"
            and transports_get = Map.empty]
       missing_clientId_branch_unreachable
         [where ?'t = unit
            and req = "\<lparr>query_clientId = Undefined, header_client_id = Str ''c1''\<rparr>"
            and transports_get = Map.empty]
  show ?thesis unfolding a by simp
qed

end
